theory Spec2Isabelle
  imports Complex_Main "HOL-Library.Product_Lexorder" "HOL-Library.Sublist"
begin

section \<open>Location densities on a hexagonal grid\<close>

text \<open>
  A shallow embedding of \<^verbatim>\<open>density.py\<close> and \<^verbatim>\<open>utils.py\<close>. Python exceptions are
  values of the type \<open>error\<close>; a function that may raise returns \<open>error + 'a\<close> with
  \<open>Inl\<close> for the exception.
\<close>

datatype error =
    RequiresFit          \<comment> \<open>\<^verbatim>\<open>ValueError("This method requires fit() to be called first")\<close>\<close>
  | InvalidMode          \<comment> \<open>\<^verbatim>\<open>ValueError(f"Invalid mode, must be one of: {MODES}")\<close>\<close>
  | IndexError           \<comment> \<open>list index out of range\<close>
  | AttributeError       \<comment> \<open>attribute access on \<^verbatim>\<open>None\<close>\<close>
  | UnboundLocalError    \<comment> \<open>a local variable read before any assignment\<close>
  | JSONDecodeError      \<comment> \<open>raised by \<^verbatim>\<open>resp.json()\<close> on a body that is not JSON\<close>
  | H3Error              \<comment> \<open>raised by the grid library (bad resolution or coordinate)\<close>
  | NotAPoint            \<comment> \<open>\<^verbatim>\<open>ValueError\<close> of \<^verbatim>\<open>geometry.x\<close> on a geometry that is not a point\<close>
  | MapError             \<comment> \<open>raised by the calls that draw the map\<close>

subsection \<open>The resolution table\<close>

text \<open>
  \<^verbatim>\<open>_resolution_values\<close>: the index of a pair is the resolution number. The Python
  literals are decimal constants; they are kept as the same decimals.
\<close>

definition resolution_values :: "(real \<times> real) list" where
  "resolution_values =
    [(4250546.8477000, 1107.712591000),
     (607220.9782429, 418.676005500),
     (86745.8540347, 158.244655800),
     (12392.2648621, 59.810857940),
     (1770.3235517, 22.606379400),
     (252.9033645, 8.544408276),
     (36.1290521, 3.229482772),
     (5.1612932, 1.220629759),
     (0.7373276, 0.461354684),
     (0.1053325, 0.174375668),
     (0.0150475, 0.065907807),
     (0.0021496, 0.024910561),
     (0.0003071, 0.009415526),
     (0.0000439, 0.003559893),
     (0.0000063, 0.001348575),
     (0.0000009, 0.000509713)]"

text \<open>
  Python's \<^verbatim>\<open>xs[i]\<close> on a list: an index from \<open>-len\<close> to \<open>-1\<close> counts from the end,
  and anything outside \<open>-len .. len - 1\<close> raises \<^verbatim>\<open>IndexError\<close>.
\<close>

definition list_getitem :: "'a list \<Rightarrow> int \<Rightarrow> error + 'a" where
  "list_getitem xs i =
     (if 0 \<le> i \<and> i < int (length xs) then Inr (xs ! nat i)
      else if i < 0 \<and> - int (length xs) \<le> i then Inr (xs ! nat (int (length xs) + i))
      else Inl IndexError)"

record H3Resolution =
  resolution :: int
  area_km2 :: real
  avg_edge_len_km :: real

definition from_resolution :: "int \<Rightarrow> error + H3Resolution" where
  "from_resolution res =
     (case list_getitem resolution_values res of
        Inl e \<Rightarrow> Inl e
      | Inr (area, edge_len) \<Rightarrow>
          Inr \<lparr>resolution = res, area_km2 = area, avg_edge_len_km = edge_len\<rparr>)"

subsection \<open>Frames, the store and the external collaborators\<close>

text \<open>
  A row of a data frame carries the three configured columns and the \<^verbatim>\<open>geometry\<close>
  column: \<open>ident\<close> is the column \<^verbatim>\<open>id_col\<close> (\<open>None\<close> is a missing value, which
  pandas does not count), \<open>lat\<close> and \<open>lng\<close> are the columns \<^verbatim>\<open>lat_col\<close> and
  \<^verbatim>\<open>lng_col\<close>, and \<open>geometry\<close> is \<open>None\<close> as long as the frame has no geometry.
  The three column names are taken to be distinct and different from \<^verbatim>\<open>geometry\<close>;
  other columns are passed through by the code and play no part here. Coordinates
  are values of a linearly ordered type \<open>'c\<close> (floating point numbers other than
  NaN, compared exactly).

  Data frames are mutable objects that may be shared, so they live in a store: a
  list of frames, an address being an index. A new object is appended.
\<close>

record ('i, 'c, 'g) row =
  ident :: "'i option"
  lat :: 'c
  lng :: 'c
  geometry :: "'g option"

type_synonym ('i, 'c, 'g) frame = "('i, 'c, 'g) row list"

type_synonym ('i, 'c, 'g) store = "('i, 'c, 'g) frame list"

type_synonym addr = nat

definition alloc :: "('i, 'c, 'g) store \<Rightarrow> ('i, 'c, 'g) frame \<Rightarrow> ('i, 'c, 'g) store \<times> addr" where
  "alloc h f = (h @ [f], length h)"

text \<open>\<^verbatim>\<open>df.copy()\<close>: a new frame object with the same rows.\<close>

definition df_copy :: "('i, 'c, 'g) store \<Rightarrow> addr \<Rightarrow> ('i, 'c, 'g) store \<times> addr" where
  "df_copy h a = alloc h (h ! a)"

text \<open>A row of the aggregated frame; \<open>agg_geo\<close> is \<open>None\<close> when the frame has no
  geometry column, and \<open>Some None\<close> when the cache had nothing for the row.\<close>

record ('c, 'g) agg_row =
  agg_lat :: 'c
  agg_lng :: 'c
  agg_count :: nat
  agg_geo :: "'g option option"

text \<open>
  What the code calls in other packages, taken as parameters:
  \<^verbatim>\<open>h3.geo_to_h3(lat, lng, resolution)\<close>, which may raise; the boundary polygon of a
  cell; the centroid of a polygon as the pair \<open>(x, y)\<close>, that is
  \<^verbatim>\<open>(centroid.coords.xy[0][0], centroid.coords.xy[1][0])\<close>; the text Python's
  f-string writes for a coordinate; and the map that \<^verbatim>\<open>geopandas\<close> and \<^verbatim>\<open>folium\<close>
  draw from the aggregated geometry frame, \<open>None\<close> when one of their calls raises.
\<close>

record ('c, 'h, 'g, 'm) collaborators =
  h3_geo_to_h3 :: "'c \<Rightarrow> 'c \<Rightarrow> int \<Rightarrow> error + 'h"
  h3_boundary :: "'h \<Rightarrow> 'g"
  centroid_xy :: "'g \<Rightarrow> 'c \<times> 'c"
  format_coord :: "'c \<Rightarrow> string"
  render_map :: "('c, 'g) agg_row list \<Rightarrow> 'm option"

subsection \<open>DensityTransform\<close>

definition AGG :: string where
  "AGG = ''agg''"

definition EXTRAP :: string where
  "EXTRAP = ''extrapolate''"

definition MODES :: "string list" where
  "MODES = [AGG, EXTRAP]"

definition poly_cache_key :: "('c, 'h, 'g, 'm) collaborators \<Rightarrow> 'c \<Rightarrow> 'c \<Rightarrow> string" where
  "poly_cache_key lib la lo = format_coord lib la @ ''-'' @ format_coord lib lo"

text \<open>The instance. \<open>input_df\<close> is a reference into the store; \<open>dt_resolution\<close> is
  \<open>None\<close> until \<^verbatim>\<open>fit\<close> has set the attribute.\<close>

record 'g DensityTransform =
  input_df :: addr
  id_col :: string
  lat_col :: string
  lng_col :: string
  polygon_cache :: "string \<rightharpoonup> 'g option"
  is_fit :: bool
  dt_resolution :: "H3Resolution option"

definition DensityTransform_init ::
  "('i, 'c, 'g) store \<Rightarrow> addr \<Rightarrow> string \<Rightarrow> string \<Rightarrow> string \<Rightarrow>
     ('i, 'c, 'g) store \<times> 'g DensityTransform" where
  "DensityTransform_init h df idc latc lngc =
     (case df_copy h df of
        (h1, a) \<Rightarrow>
          (h1, \<lparr>input_df = a, id_col = idc, lat_col = latc, lng_col = lngc,
                polygon_cache = Map.empty, is_fit = False, dt_resolution = None\<rparr>))"

text \<open>
  The value of the keyword argument \<^verbatim>\<open>mode\<close>: a string or \<^verbatim>\<open>None\<close>. The keyword
  arguments of a call are \<open>None\<close> when \<^verbatim>\<open>mode\<close> is not passed and \<open>Some m\<close> when it is.
\<close>

datatype pymode = PyNone | PyStr string

definition truthy :: "pymode \<Rightarrow> bool" where
  "truthy m = (case m of PyNone \<Rightarrow> False | PyStr s \<Rightarrow> s \<noteq> [])"

definition in_modes :: "pymode \<Rightarrow> bool" where
  "in_modes m = (case m of PyNone \<Rightarrow> False | PyStr s \<Rightarrow> s \<in> set MODES)"

text \<open>The decorator \<^verbatim>\<open>_needs_fit\<close>.\<close>

definition needs_fit ::
  "('g DensityTransform \<Rightarrow> pymode option \<Rightarrow> error + 'r) \<Rightarrow>
     'g DensityTransform \<Rightarrow> pymode option \<Rightarrow> error + 'r" where
  "needs_fit func self kwargs =
     (if \<not> is_fit self then Inl RequiresFit
      else
        let mode = (case kwargs of None \<Rightarrow> PyNone | Some m \<Rightarrow> m)
        in if truthy mode \<and> \<not> in_modes mode then Inl InvalidMode
           else func self kwargs)"

subsection \<open>fit\<close>

text \<open>
  \<^verbatim>\<open>.h3.geo_to_h3(resolution, lat_col, lng_col)\<close>: the frame indexed by the cell of
  each row. On a plain frame the coordinates are read from the two columns, and
  the first row whose cell cannot be computed raises. A frame whose rows have a
  geometry is a \<^verbatim>\<open>GeoDataFrame\<close>: there the coordinates are read from
  \<^verbatim>\<open>geometry.x\<close> and \<^verbatim>\<open>geometry.y\<close>, before any cell is computed, and the geometries
  that \<^verbatim>\<open>fit\<close> stores are polygons, for which this raises. A frame with no rows has
  no geometry to read, of either kind.
\<close>

fun h3_addresses ::
  "('c, 'h, 'g, 'm) collaborators \<Rightarrow> int \<Rightarrow> ('i, 'c, 'g) frame \<Rightarrow>
     error + ('h \<times> ('i, 'c, 'g) row) list" where
  "h3_addresses lib res [] = Inr []"
| "h3_addresses lib res (r # rs) =
     (case h3_geo_to_h3 lib (lat r) (lng r) res of
        Inl e \<Rightarrow> Inl e
      | Inr c \<Rightarrow>
          (case h3_addresses lib res rs of
             Inl e \<Rightarrow> Inl e
           | Inr ixs \<Rightarrow> Inr ((c, r) # ixs)))"

definition geo_to_h3 ::
  "('c, 'h, 'g, 'm) collaborators \<Rightarrow> int \<Rightarrow> ('i, 'c, 'g) frame \<Rightarrow>
     error + ('h \<times> ('i, 'c, 'g) row) list" where
  "geo_to_h3 lib res f =
     (if list_ex (\<lambda>r. geometry r \<noteq> None) f then Inl NotAPoint
      else h3_addresses lib res f)"

text \<open>\<^verbatim>\<open>.h3.h3_to_geo_boundary()\<close>: the geometry column is the boundary of the index.\<close>

definition h3_to_geo_boundary ::
  "('c, 'h, 'g, 'm) collaborators \<Rightarrow> ('h \<times> ('i, 'c, 'g) row) list \<Rightarrow>
     ('h \<times> ('i, 'c, 'g) row) list" where
  "h3_to_geo_boundary lib ixs =
     map (\<lambda>(c, r). (c, r\<lparr>geometry := Some (h3_boundary lib c)\<rparr>)) ixs"

text \<open>\<^verbatim>\<open>.reset_index()\<close> turns the index into the column \<^verbatim>\<open>h3_NN\<close>, which is the one
  column that matches \<^verbatim>\<open>H3_RE\<close> and is dropped again.\<close>

definition reset_index_drop_hex :: "('h \<times> ('i, 'c, 'g) row) list \<Rightarrow> ('i, 'c, 'g) frame" where
  "reset_index_drop_hex ixs = map snd ixs"

text \<open>\<^verbatim>\<open>df[GEO].apply(lambda obj: obj.centroid.coords.xy[k][0])\<close> for \<open>k = 0\<close>
  (\<open>sel = fst\<close>) and \<open>k = 1\<close> (\<open>sel = snd\<close>).\<close>

fun centroid_column ::
  "('c, 'h, 'g, 'm) collaborators \<Rightarrow> ('c \<times> 'c \<Rightarrow> 'c) \<Rightarrow> ('i, 'c, 'g) frame \<Rightarrow> error + 'c list" where
  "centroid_column lib sel [] = Inr []"
| "centroid_column lib sel (r # rs) =
     (case geometry r of
        None \<Rightarrow> Inl AttributeError
      | Some g \<Rightarrow>
          (case centroid_column lib sel rs of
             Inl e \<Rightarrow> Inl e
           | Inr vs \<Rightarrow> Inr (sel (centroid_xy lib g) # vs)))"

definition assign_lng :: "('i, 'c, 'g) frame \<Rightarrow> 'c list \<Rightarrow> ('i, 'c, 'g) frame" where
  "assign_lng f vs = map (\<lambda>(r, v). r\<lparr>lng := v\<rparr>) (zip f vs)"

definition assign_lat :: "('i, 'c, 'g) frame \<Rightarrow> 'c list \<Rightarrow> ('i, 'c, 'g) frame" where
  "assign_lat f vs = map (\<lambda>(r, v). r\<lparr>lat := v\<rparr>) (zip f vs)"

text \<open>The loop over \<^verbatim>\<open>iterrows()\<close> that fills the polygon cache.\<close>

fun build_cache ::
  "('c, 'h, 'g, 'm) collaborators \<Rightarrow> (string \<rightharpoonup> 'g option) \<Rightarrow> ('i, 'c, 'g) frame \<Rightarrow>
     (string \<rightharpoonup> 'g option)" where
  "build_cache lib cache [] = cache"
| "build_cache lib cache (r # rs) =
     build_cache lib (cache(poly_cache_key lib (lat r) (lng r) \<mapsto> geometry r)) rs"

text \<open>
  \<^verbatim>\<open>fit\<close> returns the store, the instance and either the exception or \<open>()\<close> for
  \<^verbatim>\<open>return self\<close>. An exception leaves what was done before it: the frame that the
  chain of grid calls returns is a new object, which the later steps change in
  place, and \<^verbatim>\<open>_is_fit\<close> is set before the resolution is looked up.
\<close>

definition fit ::
  "('c, 'h, 'g, 'm) collaborators \<Rightarrow> ('i, 'c, 'g) store \<Rightarrow> 'g DensityTransform \<Rightarrow> int \<Rightarrow>
     ('i, 'c, 'g) store \<times> 'g DensityTransform \<times> (error + unit)" where
  "fit lib h self res =
     (case geo_to_h3 lib res (h ! input_df self) of
        Inl e \<Rightarrow> (h, self, Inl e)
      | Inr ixs \<Rightarrow>
          (case alloc h (reset_index_drop_hex (h3_to_geo_boundary lib ixs)) of
             (h1, a) \<Rightarrow>
               let self1 = self\<lparr>input_df := a\<rparr> in
               (case centroid_column lib fst (h1 ! a) of
                  Inl e \<Rightarrow> (h1, self1, Inl e)
                | Inr xs \<Rightarrow>
                    let h2 = h1[a := assign_lng (h1 ! a) xs] in
                    (case centroid_column lib snd (h2 ! a) of
                       Inl e \<Rightarrow> (h2, self1, Inl e)
                     | Inr ys \<Rightarrow>
                         let h3 = h2[a := assign_lat (h2 ! a) ys];
                             self2 = self1\<lparr>polygon_cache :=
                                       build_cache lib (polygon_cache self1) (h3 ! a),
                                     is_fit := True\<rparr>
                         in (case from_resolution res of
                               Inl e \<Rightarrow> (h3, self2, Inl e)
                             | Inr hr \<Rightarrow> (h3, self2\<lparr>dt_resolution := Some hr\<rparr>, Inr ()))))))"

subsection \<open>transform and transform\_plot\<close>

text \<open>\<^verbatim>\<open>groupby([lat_col, lng_col])\<close>: the distinct keys, in sorted order.\<close>

definition groupby_keys :: "('i, 'c::linorder, 'g) frame \<Rightarrow> ('c \<times> 'c) list" where
  "groupby_keys f = sort (remdups (map (\<lambda>r. (lat r, lng r)) f))"

text \<open>\<^verbatim>\<open>nunique\<close>: the number of distinct values, missing values left out.\<close>

definition nunique :: "'i option list \<Rightarrow> nat" where
  "nunique vs = length (remdups (filter (\<lambda>v. v \<noteq> None) vs))"

text \<open>\<^verbatim>\<open>dict.get(key)\<close>: \<^verbatim>\<open>None\<close> for a key that is not there.\<close>

definition cache_get :: "(string \<rightharpoonup> 'g option) \<Rightarrow> string \<Rightarrow> 'g option" where
  "cache_get cache k = (case cache k of None \<Rightarrow> None | Some v \<Rightarrow> v)"

definition transform_agg ::
  "('c::linorder, 'h, 'g, 'm) collaborators \<Rightarrow> ('i, 'c, 'g) store \<Rightarrow> 'g DensityTransform \<Rightarrow>
     bool \<Rightarrow> ('c, 'g) agg_row list" where
  "transform_agg lib h self restore_geo =
     (let df = h ! input_df self;
          agg_df =
            map (\<lambda>(la, lo).
                   \<lparr>agg_lat = la, agg_lng = lo,
                    agg_count = nunique (map ident (filter (\<lambda>r. (lat r, lng r) = (la, lo)) df)),
                    agg_geo = None\<rparr>)
              (groupby_keys df)
      in if restore_geo
         then map (\<lambda>row. row\<lparr>agg_geo :=
                     Some (cache_get (polygon_cache self)
                             (poly_cache_key lib (agg_lat row) (agg_lng row)))\<rparr>) agg_df
         else agg_df)"

text \<open>
  A method returns \<open>Inr None\<close> when its body ends without a \<^verbatim>\<open>return\<close>.

  \<^verbatim>\<open>transform_plot\<close> hands the aggregation with its geometries to the calls that
  draw the map. The centre of the map is the mean of the coordinates of the rows;
  there is none when the aggregation has no rows, and the code raises there. With
  rows, it raises when one of the drawing calls does.
\<close>

definition transform ::
  "('c::linorder, 'h, 'g, 'm) collaborators \<Rightarrow> ('i, 'c, 'g) store \<Rightarrow> 'g DensityTransform \<Rightarrow>
     pymode option \<Rightarrow> error + ('c, 'g) agg_row list option" where
  "transform lib h =
     needs_fit (\<lambda>self kwargs.
       let mode = (case kwargs of None \<Rightarrow> PyStr AGG | Some m \<Rightarrow> m)
       in if mode = PyStr AGG then Inr (Some (transform_agg lib h self False))
          else Inr None)"

definition transform_plot ::
  "('c::linorder, 'h, 'g, 'm) collaborators \<Rightarrow> ('i, 'c, 'g) store \<Rightarrow> 'g DensityTransform \<Rightarrow>
     pymode option \<Rightarrow> error + 'm option" where
  "transform_plot lib h =
     needs_fit (\<lambda>self kwargs.
       let mode = (case kwargs of None \<Rightarrow> PyStr AGG | Some m \<Rightarrow> m)
       in if mode = PyStr AGG
          then
            let agg_df = transform_agg lib h self True
            in if agg_df = [] then Inl MapError
               else (case render_map lib agg_df of
                       None \<Rightarrow> Inl MapError
                     | Some m \<Rightarrow> Inr (Some m))
          else Inr None)"

subsection \<open>The feed utility\<close>

text \<open>
  A response of \<^verbatim>\<open>requests.get\<close>: the status code and what
  \<^verbatim>\<open>resp.json().get("data", {}).get("bikes", None)\<close> gives: an exception when the
  body is not JSON, \<open>None\<close> when there is no bike list, the list otherwise.
  \<^verbatim>\<open>requests.get\<close> itself is a parameter: \<open>Inl\<close> when it raises.
\<close>

record 'b response =
  status_code :: int
  bikes :: "error + 'b list option"

definition GBFS_FEEDS :: "string list" where
  "GBFS_FEEDS =
     [''https://mds.bird.co/gbfs/v2/public/los-angeles/free_bike_status.json'',
      ''https://s3.amazonaws.com/lyft-lastmile-production-iad/lbs/lax/free_bike_status.json'',
      ''https://gbfs.spin.pm/api/gbfs/v2_2/los_angeles/free_bike_status'']"

text \<open>
  The loop over the feeds. \<open>resp\<close> is the local variable of that name: \<open>None\<close> while
  it is unbound. The \<^verbatim>\<open>except\<close> branch only prints, so the code after it runs with
  \<open>resp\<close> as it was.
\<close>

fun feed_loop ::
  "(string \<Rightarrow> 'x + 'b response) \<Rightarrow> string list \<Rightarrow> 'b response option \<Rightarrow> 'b list \<Rightarrow>
     error + 'b list" where
  "feed_loop get [] resp out_df = Inr out_df"
| "feed_loop get (feed # feeds) resp out_df =
     (let resp1 = (case get feed of Inl err \<Rightarrow> resp | Inr r \<Rightarrow> Some r) in
      case resp1 of
        None \<Rightarrow> Inl UnboundLocalError
      | Some r \<Rightarrow>
          if status_code r \<noteq> 200 then feed_loop get feeds resp1 out_df
          else
            (case bikes r of
               Inl e \<Rightarrow> Inl e
             | Inr None \<Rightarrow> feed_loop get feeds resp1 out_df
             | Inr (Some bikes_list) \<Rightarrow> feed_loop get feeds resp1 (out_df @ bikes_list)))"

definition free_bike_status_to_df ::
  "(string \<Rightarrow> 'x + 'b response) \<Rightarrow> string list option \<Rightarrow> error + 'b list" where
  "free_bike_status_to_df get feeds =
     feed_loop get (case feeds of None \<Rightarrow> GBFS_FEEDS | Some fs \<Rightarrow> fs) None []"

subsection \<open>Sequences of calls\<close>

text \<open>
  What a caller does with an instance after building it: any sequence of calls of
  the three public methods. \<^verbatim>\<open>transform\<close> and \<^verbatim>\<open>transform_plot\<close> build their result
  from new frames and assign to nothing that existed before, so they hand back the
  store and the instance they were given; their result is dropped here.
\<close>

datatype call = Fit int | Transform "pymode option" | TransformPlot "pymode option"

fun run_calls ::
  "('c::linorder, 'h, 'g, 'm) collaborators \<Rightarrow> ('i, 'c, 'g) store \<times> 'g DensityTransform \<Rightarrow>
     call list \<Rightarrow> ('i, 'c, 'g) store \<times> 'g DensityTransform" where
  "run_calls lib st [] = st"
| "run_calls lib (h, self) (Fit res # cs) =
     (case fit lib h self res of (h1, self1, _) \<Rightarrow> run_calls lib (h1, self1) cs)"
| "run_calls lib (h, self) (Transform kwargs # cs) =
     (case transform lib h self kwargs of _ \<Rightarrow> run_calls lib (h, self) cs)"
| "run_calls lib (h, self) (TransformPlot kwargs # cs) =
     (case transform_plot lib h self kwargs of _ \<Rightarrow> run_calls lib (h, self) cs)"

subsection \<open>What a successful fit leaves\<close>

text \<open>The row that \<^verbatim>\<open>fit\<close> makes of a row \<open>r\<close> whose cell is \<open>c\<close>, and the key
  columns of a row.\<close>

definition fitted_row ::
  "('c, 'h, 'g, 'm) collaborators \<Rightarrow> 'h \<Rightarrow> ('i, 'c, 'g) row \<Rightarrow> ('i, 'c, 'g) row" where
  "fitted_row lib c r =
     r\<lparr>lat := snd (centroid_xy lib (h3_boundary lib c)),
       lng := fst (centroid_xy lib (h3_boundary lib c)),
       geometry := Some (h3_boundary lib c)\<rparr>"

definition row_key :: "('i, 'c, 'g) row \<Rightarrow> 'c \<times> 'c" where
  "row_key r = (lat r, lng r)"

definition agg_key :: "('c, 'g) agg_row \<Rightarrow> 'c \<times> 'c" where
  "agg_key row = (agg_lat row, agg_lng row)"

text \<open>What holds of the cache of every instance a caller can have: it is empty
  unless the frame of the instance has geometries.\<close>

definition cache_inv :: "('i, 'c, 'g) store \<Rightarrow> 'g DensityTransform \<Rightarrow> bool" where
  "cache_inv h self =
     (polygon_cache self = Map.empty \<or> list_ex (\<lambda>r. geometry r \<noteq> None) (h ! input_df self))"

subsection \<open>A small grid for concrete instances\<close>

text \<open>
  Coordinates are integers, a cell is a square of side 2 named by its lower corner
  halved, its boundary is the cell itself and its centroid the odd point inside;
  a coordinate is written as that many strokes. The frame has three records with
  the identifiers A, A and B, all in the cell \<open>(1, 0)\<close>.
\<close>

definition example_lib :: "(int, int \<times> int, int \<times> int, nat) collaborators" where
  "example_lib =
     \<lparr>h3_geo_to_h3 = (\<lambda>la lo res.
         if 0 \<le> res \<and> res \<le> 15 then Inr (la div 2, lo div 2) else Inl H3Error),
      h3_boundary = (\<lambda>c. c),
      centroid_xy = (\<lambda>c. (2 * snd c + 1, 2 * fst c + 1)),
      format_coord = (\<lambda>n. replicate (nat n) (CHR ''I'')),
      render_map = (\<lambda>rows. Some (length rows))\<rparr>"

definition example_df :: "(string, int, int \<times> int) frame" where
  "example_df =
     [\<lparr>ident = Some ''A'', lat = 2, lng = 0, geometry = None\<rparr>,
      \<lparr>ident = Some ''A'', lat = 3, lng = 1, geometry = None\<rparr>,
      \<lparr>ident = Some ''B'', lat = 2, lng = 1, geometry = None\<rparr>]"

definition example_new :: "(string, int, int \<times> int) store \<times> (int \<times> int) DensityTransform" where
  "example_new = DensityTransform_init [example_df] 0 ''id'' ''lat'' ''lng''"

definition example_fit ::
  "(string, int, int \<times> int) store \<times> (int \<times> int) DensityTransform \<times> (error + unit)" where
  "example_fit = fit example_lib (fst example_new) (snd example_new) 9"

text \<open>A new instance over a frame with no rows, and a \<^verbatim>\<open>fit\<close> of it at the
  resolution 16, which is not in the table.\<close>

definition example_empty :: "(string, int, int \<times> int) store \<times> (int \<times> int) DensityTransform" where
  "example_empty = DensityTransform_init [[]] 0 ''id'' ''lat'' ''lng''"

definition example_empty_fit ::
  "(string, int, int \<times> int) store \<times> (int \<times> int) DensityTransform \<times> (error + unit)" where
  "example_empty_fit = fit example_lib (fst example_empty) (snd example_empty) 16"

text \<open>A frame with records in three cells, two of them in the first.\<close>

definition example_df2 :: "(string, int, int \<times> int) frame" where
  "example_df2 =
     [\<lparr>ident = Some ''A'', lat = 2, lng = 0, geometry = None\<rparr>,
      \<lparr>ident = Some ''B'', lat = 3, lng = 1, geometry = None\<rparr>,
      \<lparr>ident = Some ''A'', lat = 4, lng = 0, geometry = None\<rparr>,
      \<lparr>ident = Some ''C'', lat = 2, lng = 2, geometry = None\<rparr>]"

definition example_new2 :: "(string, int, int \<times> int) store \<times> (int \<times> int) DensityTransform" where
  "example_new2 = DensityTransform_init [example_df2] 0 ''id'' ''lat'' ''lng''"

definition example_fit2 ::
  "(string, int, int \<times> int) store \<times> (int \<times> int) DensityTransform \<times> (error + unit)" where
  "example_fit2 = fit example_lib (fst example_new2) (snd example_new2) 9"

section \<open>Properties\<close>

subsection \<open>The concrete instance, evaluated\<close>

lemma length_resolution_values: "length resolution_values = 16"
  by (simp add: resolution_values_def)

lemma example_new_eq:
  "example_new =
     ([example_df, example_df],
      \<lparr>input_df = 1, id_col = ''id'', lat_col = ''lat'', lng_col = ''lng'',
        polygon_cache = Map.empty, is_fit = False, dt_resolution = None\<rparr>)"
  by (simp add: example_new_def DensityTransform_init_def df_copy_def alloc_def)

lemma example_fit_eq:
  "is_fit (fst (snd example_fit)) \<and> input_df (fst (snd example_fit)) = 2 \<and>
   snd (snd example_fit) = Inr () \<and>
   fst example_fit =
     [example_df, example_df,
      [\<lparr>ident = Some ''A'', lat = 3, lng = 1, geometry = Some (1, 0)\<rparr>,
       \<lparr>ident = Some ''A'', lat = 3, lng = 1, geometry = Some (1, 0)\<rparr>,
       \<lparr>ident = Some ''B'', lat = 3, lng = 1, geometry = Some (1, 0)\<rparr>]]"
  by (simp add: example_fit_def example_new_eq fit_def geo_to_h3_def example_df_def
      example_lib_def alloc_def
      h3_to_geo_boundary_def reset_index_drop_hex_def assign_lng_def assign_lat_def
      from_resolution_def list_getitem_def resolution_values_def)

lemma example_fit_cache:
  "polygon_cache (fst (snd example_fit)) (poly_cache_key example_lib 3 1) = Some (Some (1, 0))"
  by (simp add: example_fit_def example_new_eq fit_def geo_to_h3_def example_df_def
      example_lib_def alloc_def
      h3_to_geo_boundary_def reset_index_drop_hex_def assign_lng_def assign_lat_def
      from_resolution_def list_getitem_def resolution_values_def poly_cache_key_def)

lemma example_fit2_eq:
  "is_fit (fst (snd example_fit2)) \<and> input_df (fst (snd example_fit2)) = 2 \<and>
   snd (snd example_fit2) = Inr () \<and>
   fst example_fit2 =
     [example_df2, example_df2,
      [\<lparr>ident = Some ''A'', lat = 3, lng = 1, geometry = Some (1, 0)\<rparr>,
       \<lparr>ident = Some ''B'', lat = 3, lng = 1, geometry = Some (1, 0)\<rparr>,
       \<lparr>ident = Some ''A'', lat = 5, lng = 1, geometry = Some (2, 0)\<rparr>,
       \<lparr>ident = Some ''C'', lat = 3, lng = 3, geometry = Some (1, 1)\<rparr>]]"
  by (simp add: example_fit2_def example_new2_def DensityTransform_init_def df_copy_def
      fit_def geo_to_h3_def example_df2_def
      example_lib_def alloc_def
      h3_to_geo_boundary_def reset_index_drop_hex_def assign_lng_def assign_lat_def
      from_resolution_def list_getitem_def resolution_values_def)

lemma example_fit2_cache:
  "polygon_cache (fst (snd example_fit2)) =
     [''III-I'' \<mapsto> Some (1, 0), ''IIIII-I'' \<mapsto> Some (2, 0), ''III-III'' \<mapsto> Some (1, 1)]"
  by (simp add: example_fit2_def example_new2_def DensityTransform_init_def df_copy_def
      fit_def geo_to_h3_def example_df2_def
      example_lib_def alloc_def
      h3_to_geo_boundary_def reset_index_drop_hex_def assign_lng_def assign_lat_def
      from_resolution_def list_getitem_def resolution_values_def poly_cache_key_def eval_nat_numeral)

lemma example_fit2_run:
  "fit example_lib (fst example_new2) (snd example_new2) 9 =
     (fst example_fit2, fst (snd example_fit2), Inr ())"
proof -
  have "snd (snd example_fit2) = Inr ()"
    using example_fit2_eq by simp
  then have "example_fit2 = (fst example_fit2, fst (snd example_fit2), Inr ())"
    by (metis prod.collapse)
  then show ?thesis
    by (simp add: example_fit2_def)
qed

subsection \<open>The resolution table\<close>

text \<open>
  C4. For every resolution \<open>r\<close> from 0 to 15, \<^verbatim>\<open>from_resolution(r)\<close> returns an entry
  whose \<open>resolution\<close> is \<open>r\<close> and whose area and edge length are the pair at index \<open>r\<close>
  of the table; the sixteen entries are the documented decimal constants written
  out below, digit for digit.
\<close>

theorem from_resolution_documented_constants:
  "(0 \<le> r \<and> r \<le> 15 \<longrightarrow>
      (\<exists>e. from_resolution r = Inr e \<and> resolution e = r \<and>
           (area_km2 e, avg_edge_len_km e) = resolution_values ! nat r)) \<and>
   map from_resolution [0, 1, 2, 3, 4, 5, 6, 7, 8, 9, 10, 11, 12, 13, 14, 15] =
     [Inr \<lparr>resolution = 0, area_km2 = 4250546.8477000, avg_edge_len_km = 1107.712591000\<rparr>,
      Inr \<lparr>resolution = 1, area_km2 = 607220.9782429, avg_edge_len_km = 418.676005500\<rparr>,
      Inr \<lparr>resolution = 2, area_km2 = 86745.8540347, avg_edge_len_km = 158.244655800\<rparr>,
      Inr \<lparr>resolution = 3, area_km2 = 12392.2648621, avg_edge_len_km = 59.810857940\<rparr>,
      Inr \<lparr>resolution = 4, area_km2 = 1770.3235517, avg_edge_len_km = 22.606379400\<rparr>,
      Inr \<lparr>resolution = 5, area_km2 = 252.9033645, avg_edge_len_km = 8.544408276\<rparr>,
      Inr \<lparr>resolution = 6, area_km2 = 36.1290521, avg_edge_len_km = 3.229482772\<rparr>,
      Inr \<lparr>resolution = 7, area_km2 = 5.1612932, avg_edge_len_km = 1.220629759\<rparr>,
      Inr \<lparr>resolution = 8, area_km2 = 0.7373276, avg_edge_len_km = 0.461354684\<rparr>,
      Inr \<lparr>resolution = 9, area_km2 = 0.1053325, avg_edge_len_km = 0.174375668\<rparr>,
      Inr \<lparr>resolution = 10, area_km2 = 0.0150475, avg_edge_len_km = 0.065907807\<rparr>,
      Inr \<lparr>resolution = 11, area_km2 = 0.0021496, avg_edge_len_km = 0.024910561\<rparr>,
      Inr \<lparr>resolution = 12, area_km2 = 0.0003071, avg_edge_len_km = 0.009415526\<rparr>,
      Inr \<lparr>resolution = 13, area_km2 = 0.0000439, avg_edge_len_km = 0.003559893\<rparr>,
      Inr \<lparr>resolution = 14, area_km2 = 0.0000063, avg_edge_len_km = 0.001348575\<rparr>,
      Inr \<lparr>resolution = 15, area_km2 = 0.0000009, avg_edge_len_km = 0.000509713\<rparr>]"
proof
  show "0 \<le> r \<and> r \<le> 15 \<longrightarrow>
      (\<exists>e. from_resolution r = Inr e \<and> resolution e = r \<and>
           (area_km2 e, avg_edge_len_km e) = resolution_values ! nat r)"
    by (auto simp add: from_resolution_def list_getitem_def length_resolution_values
        split: prod.splits)
next
  show "map from_resolution [0, 1, 2, 3, 4, 5, 6, 7, 8, 9, 10, 11, 12, 13, 14, 15] =
     [Inr \<lparr>resolution = 0, area_km2 = 4250546.8477000, avg_edge_len_km = 1107.712591000\<rparr>,
      Inr \<lparr>resolution = 1, area_km2 = 607220.9782429, avg_edge_len_km = 418.676005500\<rparr>,
      Inr \<lparr>resolution = 2, area_km2 = 86745.8540347, avg_edge_len_km = 158.244655800\<rparr>,
      Inr \<lparr>resolution = 3, area_km2 = 12392.2648621, avg_edge_len_km = 59.810857940\<rparr>,
      Inr \<lparr>resolution = 4, area_km2 = 1770.3235517, avg_edge_len_km = 22.606379400\<rparr>,
      Inr \<lparr>resolution = 5, area_km2 = 252.9033645, avg_edge_len_km = 8.544408276\<rparr>,
      Inr \<lparr>resolution = 6, area_km2 = 36.1290521, avg_edge_len_km = 3.229482772\<rparr>,
      Inr \<lparr>resolution = 7, area_km2 = 5.1612932, avg_edge_len_km = 1.220629759\<rparr>,
      Inr \<lparr>resolution = 8, area_km2 = 0.7373276, avg_edge_len_km = 0.461354684\<rparr>,
      Inr \<lparr>resolution = 9, area_km2 = 0.1053325, avg_edge_len_km = 0.174375668\<rparr>,
      Inr \<lparr>resolution = 10, area_km2 = 0.0150475, avg_edge_len_km = 0.065907807\<rparr>,
      Inr \<lparr>resolution = 11, area_km2 = 0.0021496, avg_edge_len_km = 0.024910561\<rparr>,
      Inr \<lparr>resolution = 12, area_km2 = 0.0003071, avg_edge_len_km = 0.009415526\<rparr>,
      Inr \<lparr>resolution = 13, area_km2 = 0.0000439, avg_edge_len_km = 0.003559893\<rparr>,
      Inr \<lparr>resolution = 14, area_km2 = 0.0000063, avg_edge_len_km = 0.001348575\<rparr>,
      Inr \<lparr>resolution = 15, area_km2 = 0.0000009, avg_edge_len_km = 0.000509713\<rparr>]"
    by (simp add: from_resolution_def list_getitem_def resolution_values_def)
qed

theorem from_resolution_documented_constants_witness:
  "(0::int) \<le> 9 \<and> (9::int) \<le> 15 \<and>
   (\<exists>e. from_resolution 9 = Inr e \<and> resolution e = 9 \<and>
        (area_km2 e, avg_edge_len_km e) = (0.1053325, 0.174375668))"
  using from_resolution_documented_constants [of 9]
  by (simp add: resolution_values_def)

text \<open>
  C9. The lookup has no side effect and succeeds for every resolution from 0 to
  15, but an out-of-range index is not its only other case: Python counts a
  negative index from the end of the list, so the resolutions from -16 to -1
  return an entry, whose \<open>resolution\<close> is the negative number and whose constants
  are those of the level counted from the end.
\<close>

theorem from_resolution_negative_index:
  "from_resolution (- 1) =
     Inr \<lparr>resolution = - 1, area_km2 = 0.0000009, avg_edge_len_km = 0.000509713\<rparr> \<and>
   from_resolution (- 16) =
     Inr \<lparr>resolution = - 16, area_km2 = 4250546.8477000, avg_edge_len_km = 1107.712591000\<rparr>"
  by (simp add: from_resolution_def list_getitem_def resolution_values_def)

text \<open>The lookup raises exactly below -16 and above 15.\<close>

lemma from_resolution_fails_iff:
  "(from_resolution r = Inl IndexError) = (r < - 16 \<or> 15 < r)"
  by (auto simp add: from_resolution_def list_getitem_def length_resolution_values
      split: prod.splits)

subsection \<open>The guard of the methods that need a fit\<close>

text \<open>The guard on an instance whose \<^verbatim>\<open>_is_fit\<close> is not set, as the constructor
  leaves it: both methods raise the error that asks for \<^verbatim>\<open>fit\<close>, whatever the
  keyword arguments are.\<close>

lemma requires_fit_when_flag_unset:
  assumes "\<not> is_fit self"
  shows "transform lib h self kwargs = Inl RequiresFit \<and>
         transform_plot lib h self kwargs = Inl RequiresFit"
  using assms by (simp add: transform_def transform_plot_def needs_fit_def)

lemma constructor_leaves_unfit: "\<not> is_fit (snd (DensityTransform_init h df idc latc lngc))"
  by (simp add: DensityTransform_init_def df_copy_def alloc_def)

text \<open>\<^verbatim>\<open>fit\<close> sets \<^verbatim>\<open>_is_fit\<close> one statement before its last, the lookup of the
  resolution. On a frame with no rows no cell is computed, so with a resolution
  outside the table \<^verbatim>\<open>fit\<close> gets as far as the lookup and raises there, with the
  flag set; the guard then lets every call through.\<close>

lemma fit_on_empty_frame_out_of_range:
  assumes "h ! input_df self = []" and "res < - 16 \<or> 15 < res"
  shows "snd (snd (fit lib h self res)) = Inl IndexError \<and>
         is_fit (fst (snd (fit lib h self res))) \<and>
         transform lib (fst (fit lib h self res)) (fst (snd (fit lib h self res))) None =
           Inr (Some [])"
proof -
  from assms(2) have r: "from_resolution res = Inl IndexError"
    by (simp add: from_resolution_fails_iff)
  show ?thesis
    by (simp add: fit_def assms(1) geo_to_h3_def alloc_def h3_to_geo_boundary_def
        reset_index_drop_hex_def assign_lng_def assign_lat_def r transform_def needs_fit_def
        truthy_def transform_agg_def groupby_keys_def)
qed

text \<open>
  C2. The claim is that \<^verbatim>\<open>transform\<close> and \<^verbatim>\<open>transform_plot\<close> ask for \<^verbatim>\<open>fit\<close> on
  every instance on which \<^verbatim>\<open>fit\<close> has not succeeded. The code does otherwise
  after a \<^verbatim>\<open>fit\<close> that raised in its last statement: on a new instance over a
  frame with no rows, \<^verbatim>\<open>fit(resolution=16)\<close> raises \<^verbatim>\<open>IndexError\<close> and leaves
  \<^verbatim>\<open>_is_fit\<close> set; then \<^verbatim>\<open>transform()\<close> returns an aggregation with no rows, and
  with an invalid mode both methods raise the invalid-mode error, not the one
  that asks for \<^verbatim>\<open>fit\<close>.
\<close>

theorem failed_fit_passes_fit_guard:
  "\<not> is_fit (snd example_empty) \<and>
   snd (snd example_empty_fit) = Inl IndexError \<and>
   is_fit (fst (snd example_empty_fit)) \<and>
   transform example_lib (fst example_empty_fit) (fst (snd example_empty_fit)) None =
     Inr (Some []) \<and>
   transform example_lib (fst example_empty_fit) (fst (snd example_empty_fit))
     (Some (PyStr ''bogus'')) = Inl InvalidMode \<and>
   transform_plot example_lib (fst example_empty_fit) (fst (snd example_empty_fit))
     (Some (PyStr ''bogus'')) = Inl InvalidMode \<and>
   transform_plot example_lib (fst example_empty_fit) (fst (snd example_empty_fit)) None =
     Inl MapError"
  by (simp add: example_empty_fit_def example_empty_def DensityTransform_init_def df_copy_def
      alloc_def fit_def geo_to_h3_def h3_to_geo_boundary_def reset_index_drop_hex_def
      assign_lng_def assign_lat_def from_resolution_def list_getitem_def resolution_values_def
      transform_def transform_plot_def needs_fit_def truthy_def in_modes_def MODES_def AGG_def
      EXTRAP_def transform_agg_def groupby_keys_def)

text \<open>A \<^verbatim>\<open>fit\<close> that raises in the grid step leaves the store and the instance
  as they were, so the instance is as unfit as before.\<close>

lemma fit_raises_in_grid_step:
  "geo_to_h3 lib res (h ! input_df self) = Inl e \<Longrightarrow> fit lib h self res = (h, self, Inl e)"
  by (simp add: fit_def)

text \<open>
  C3, as stated, fails: on a fitted instance the empty string is a mode outside
  the enumerated set, and both methods accept it and return \<^verbatim>\<open>None\<close>, because the
  guard tests the mode for truth before it tests membership.
\<close>

theorem empty_mode_passes_validation:
  "is_fit (fst (snd example_fit)) \<and> '''' \<notin> set MODES \<and>
   transform example_lib (fst example_fit) (fst (snd example_fit)) (Some (PyStr '''')) = Inr None \<and>
   transform_plot example_lib (fst example_fit) (fst (snd example_fit)) (Some (PyStr '''')) = Inr None"
  using example_fit_eq
  by (simp add: transform_def transform_plot_def needs_fit_def truthy_def MODES_def AGG_def
      EXTRAP_def)

text \<open>
  C3, amended. On a fitted instance, a mode that is a non-empty string outside
  \<^verbatim>\<open>MODES\<close> makes \<^verbatim>\<open>transform\<close> and \<^verbatim>\<open>transform_plot\<close> raise the invalid-mode error,
  and a mode in \<^verbatim>\<open>MODES\<close> does not raise it.
\<close>

theorem nonempty_mode_validated:
  assumes "is_fit self"
  shows "(s \<noteq> [] \<and> s \<notin> set MODES \<longrightarrow>
            transform lib h self (Some (PyStr s)) = Inl InvalidMode \<and>
            transform_plot lib h self (Some (PyStr s)) = Inl InvalidMode) \<and>
         (s \<in> set MODES \<longrightarrow>
            transform lib h self (Some (PyStr s)) \<noteq> Inl InvalidMode \<and>
            transform_plot lib h self (Some (PyStr s)) \<noteq> Inl InvalidMode)"
  using assms
  by (auto simp add: transform_def transform_plot_def needs_fit_def truthy_def in_modes_def
      Let_def split: option.splits)

theorem nonempty_mode_validated_witness:
  "is_fit (fst (snd example_fit)) \<and>
   ''aggregate'' \<noteq> [] \<and> ''aggregate'' \<notin> set MODES \<and>
   transform example_lib (fst example_fit) (fst (snd example_fit)) (Some (PyStr ''aggregate'')) =
     Inl InvalidMode \<and>
   transform_plot example_lib (fst example_fit) (fst (snd example_fit))
     (Some (PyStr ''aggregate'')) = Inl InvalidMode \<and>
   ''agg'' \<in> set MODES \<and>
   transform example_lib (fst example_fit) (fst (snd example_fit)) (Some (PyStr ''agg'')) \<noteq>
     Inl InvalidMode \<and>
   transform_plot example_lib (fst example_fit) (fst (snd example_fit)) (Some (PyStr ''agg'')) \<noteq>
     Inl InvalidMode"
proof -
  have f: "is_fit (fst (snd example_fit))"
    using example_fit_eq by simp
  have m: "''aggregate'' \<notin> set MODES" "''agg'' \<in> set MODES"
    by (simp_all add: MODES_def AGG_def EXTRAP_def)
  show ?thesis
    using f m
      nonempty_mode_validated [OF f, of "''aggregate''" example_lib "fst example_fit"]
      nonempty_mode_validated [OF f, of "''agg''" example_lib "fst example_fit"]
    by simp
qed

text \<open>
  C10. On a fitted instance, \<^verbatim>\<open>transform\<close> and \<^verbatim>\<open>transform_plot\<close> called with the
  mode \<^verbatim>\<open>extrapolate\<close> pass the validation of the mode and return \<^verbatim>\<open>None\<close>: no
  error, no aggregation.
\<close>

theorem extrapolate_returns_none:
  assumes "is_fit self"
  shows "in_modes (PyStr EXTRAP) \<and>
         transform lib h self (Some (PyStr EXTRAP)) = Inr None \<and>
         transform_plot lib h self (Some (PyStr EXTRAP)) = Inr None"
  using assms
  by (simp add: transform_def transform_plot_def needs_fit_def in_modes_def MODES_def AGG_def
      EXTRAP_def)

theorem extrapolate_returns_none_witness:
  "is_fit (fst (snd example_fit)) \<and>
   transform example_lib (fst example_fit) (fst (snd example_fit)) (Some (PyStr ''extrapolate'')) =
     Inr None \<and>
   transform_plot example_lib (fst example_fit) (fst (snd example_fit))
     (Some (PyStr ''extrapolate'')) = Inr None"
proof -
  have f: "is_fit (fst (snd example_fit))"
    using example_fit_eq by simp
  show ?thesis
    using f extrapolate_returns_none [OF f, of example_lib "fst example_fit"]
    by (simp add: EXTRAP_def)
qed

subsection \<open>What fit computes\<close>

text \<open>The steps of \<^verbatim>\<open>fit\<close> on a frame whose cells could all be computed: the
  centroid columns never raise, and the frame that is left is the row-wise image
  of the indexed frame.\<close>

lemma h3_addresses_Inr:
  "h3_addresses lib res f = Inr ixs \<Longrightarrow>
   list_all2 (\<lambda>r p. snd p = r \<and> h3_geo_to_h3 lib (lat r) (lng r) res = Inr (fst p)) f ixs"
  by (induction f arbitrary: ixs) (auto split: sum.splits)

lemma geo_to_h3_Inr:
  "geo_to_h3 lib res f = Inr ixs \<Longrightarrow>
   list_all2 (\<lambda>r p. snd p = r \<and> h3_geo_to_h3 lib (lat r) (lng r) res = Inr (fst p)) f ixs"
  by (rule h3_addresses_Inr) (simp add: geo_to_h3_def split: if_splits)

lemma geo_to_h3_plain:
  "geo_to_h3 lib res f = Inr ixs \<Longrightarrow> \<forall>r\<in>set f. geometry r = None"
  by (auto simp add: geo_to_h3_def list_ex_iff split: if_splits)

lemma centroid_column_map:
  "(\<forall>p\<in>set ps. geometry (F p) = Some (G p)) \<Longrightarrow>
   centroid_column lib sel (map F ps) = Inr (map (\<lambda>p. sel (centroid_xy lib (G p))) ps)"
  by (induction ps) auto

lemma assign_lng_map: "assign_lng (map F ps) (map V ps) = map (\<lambda>p. (F p)\<lparr>lng := V p\<rparr>) ps"
  by (induction ps) (auto simp add: assign_lng_def)

lemma assign_lat_map: "assign_lat (map F ps) (map V ps) = map (\<lambda>p. (F p)\<lparr>lat := V p\<rparr>) ps"
  by (induction ps) (auto simp add: assign_lat_def)

lemma fit_after_geo_to_h3:
  assumes "geo_to_h3 lib res (h ! input_df self) = Inr ixs"
  shows "fit lib h self res =
     (let f = map (\<lambda>p. fitted_row lib (fst p) (snd p)) ixs;
          self2 = self\<lparr>input_df := length h,
                       polygon_cache := build_cache lib (polygon_cache self) f,
                       is_fit := True\<rparr>
      in case from_resolution res of
           Inl e \<Rightarrow> (h @ [f], self2, Inl e)
         | Inr hr \<Rightarrow> (h @ [f], self2\<lparr>dt_resolution := Some hr\<rparr>, Inr ()))"
proof -
  let ?F = "\<lambda>p. (snd p)\<lparr>geometry := Some (h3_boundary lib (fst p))\<rparr>"
  let ?X = "\<lambda>p. fst (centroid_xy lib (h3_boundary lib (fst p)))"
  let ?Y = "\<lambda>p. snd (centroid_xy lib (h3_boundary lib (fst p)))"
  have f0: "reset_index_drop_hex (h3_to_geo_boundary lib ixs) = map ?F ixs"
    by (simp add: reset_index_drop_hex_def h3_to_geo_boundary_def case_prod_beta)
  have c1: "centroid_column lib fst (map ?F ixs) = Inr (map ?X ixs)"
    by (rule centroid_column_map) simp
  have a1: "assign_lng (map ?F ixs) (map ?X ixs) = map (\<lambda>p. (?F p)\<lparr>lng := ?X p\<rparr>) ixs"
    by (rule assign_lng_map)
  have c2: "centroid_column lib snd (map (\<lambda>p. (?F p)\<lparr>lng := ?X p\<rparr>) ixs) = Inr (map ?Y ixs)"
    by (rule centroid_column_map) simp
  have a2: "assign_lat (map (\<lambda>p. (?F p)\<lparr>lng := ?X p\<rparr>) ixs) (map ?Y ixs) =
            map (\<lambda>p. fitted_row lib (fst p) (snd p)) ixs"
    by (simp add: assign_lat_map fitted_row_def)
  show ?thesis
    by (simp add: fit_def assms alloc_def f0 c1 a1 c2 a2 Let_def split: sum.splits)
qed

lemma fit_Inr:
  assumes "fit lib h self res = (h', self', Inr ())"
  shows "\<exists>ixs hr. geo_to_h3 lib res (h ! input_df self) = Inr ixs \<and> from_resolution res = Inr hr \<and>
           h' = h @ [map (\<lambda>p. fitted_row lib (fst p) (snd p)) ixs] \<and>
           self' = self\<lparr>input_df := length h,
                        polygon_cache := build_cache lib (polygon_cache self)
                           (map (\<lambda>p. fitted_row lib (fst p) (snd p)) ixs),
                        is_fit := True, dt_resolution := Some hr\<rparr>"
proof (cases "geo_to_h3 lib res (h ! input_df self)")
  case (Inl e)
  with assms show ?thesis by (simp add: fit_def)
next
  case (Inr ixs)
  from assms show ?thesis
    unfolding fit_after_geo_to_h3 [OF Inr]
    by (auto simp add: Let_def Inr split: sum.splits)
qed

lemma h3_addresses_succeeds:
  "(\<forall>r\<in>set f. \<exists>c. h3_geo_to_h3 lib (lat r) (lng r) res = Inr c) \<Longrightarrow>
   \<exists>ixs. h3_addresses lib res f = Inr ixs"
  by (induction f) auto

lemma geo_to_h3_succeeds:
  assumes "\<forall>r\<in>set f. geometry r = None"
    and "\<forall>r\<in>set f. \<exists>c. h3_geo_to_h3 lib (lat r) (lng r) res = Inr c"
  shows "\<exists>ixs. geo_to_h3 lib res f = Inr ixs"
  using assms(1) h3_addresses_succeeds [OF assms(2)]
  by (simp add: geo_to_h3_def list_ex_iff)

lemma from_resolution_in_range: "0 \<le> r \<Longrightarrow> r \<le> 15 \<Longrightarrow> \<exists>e. from_resolution r = Inr e"
  by (auto simp add: from_resolution_def list_getitem_def length_resolution_values
      split: prod.splits)

text \<open>\<^verbatim>\<open>fit\<close> returns when the frame is a plain one, every row has a cell and the
  resolution is one of the table.\<close>

lemma fit_returns:
  assumes "\<forall>r\<in>set (h ! input_df self). geometry r = None"
    and "\<forall>r\<in>set (h ! input_df self). \<exists>c. h3_geo_to_h3 lib (lat r) (lng r) res = Inr c"
    and "0 \<le> res" and "res \<le> 15"
  shows "\<exists>h' self'. fit lib h self res = (h', self', Inr ())"
proof -
  from geo_to_h3_succeeds [OF assms(1, 2)] obtain ixs where
    g: "geo_to_h3 lib res (h ! input_df self) = Inr ixs"
    by blast
  from from_resolution_in_range [OF assms(3, 4)] obtain hr where
    r: "from_resolution res = Inr hr"
    by blast
  show ?thesis
    unfolding fit_after_geo_to_h3 [OF g] by (simp add: r Let_def)
qed

lemma fit_store:
  "fit lib h self res = (h', self', r) \<Longrightarrow> h' = h \<or> (\<exists>f. h' = h @ [f])"
proof (cases "geo_to_h3 lib res (h ! input_df self)")
  case (Inl e)
  assume "fit lib h self res = (h', self', r)"
  with Inl show ?thesis by (simp add: fit_def)
next
  case (Inr ixs)
  assume "fit lib h self res = (h', self', r)"
  then show ?thesis
    unfolding fit_after_geo_to_h3 [OF Inr]
    by (auto simp add: Let_def split: sum.splits)
qed

lemma fit_keeps: "fit lib h self res = (h', self', r) \<Longrightarrow> a < length h \<Longrightarrow> a < length h' \<and> h' ! a = h ! a"
  by (drule fit_store) (auto simp add: nth_append)

lemma run_calls_keeps:
  "a < length h \<Longrightarrow> a < length (fst (run_calls lib (h, self) cs)) \<and> fst (run_calls lib (h, self) cs) ! a = h ! a"
proof (induction cs arbitrary: h self)
  case Nil
  then show ?case by simp
next
  case (Cons c cs)
  show ?case
  proof (cases c)
    case (Fit res)
    obtain h1 self1 r where f: "fit lib h self res = (h1, self1, r)"
      by (cases "fit lib h self res") auto
    from fit_keeps [OF f Cons.prems] Cons.IH [of h1 self1] show ?thesis
      by (simp add: Fit f)
  next
    case (Transform kw)
    with Cons show ?thesis by simp
  next
    case (TransformPlot kw)
    with Cons show ?thesis by simp
  qed
qed

lemma example_fit_run:
  "fit example_lib (fst example_new) (snd example_new) 9 =
     (fst example_fit, fst (snd example_fit), Inr ())"
proof -
  have "snd (snd example_fit) = Inr ()"
    using example_fit_eq by simp
  then have "example_fit = (fst example_fit, fst (snd example_fit), Inr ())"
    by (metis prod.collapse)
  then show ?thesis
    by (simp add: example_fit_def)
qed

text \<open>
  C7. The constructor stores a copy: a new frame with the rows of the caller's
  frame, at an address that is not the caller's. The caller's frame is the same
  after the constructor and after any sequence of calls of \<^verbatim>\<open>fit\<close>,
  \<^verbatim>\<open>transform\<close> and \<^verbatim>\<open>transform_plot\<close> on the instance, whether they return
  or raise.
\<close>

theorem caller_dataset_unmodified:
  assumes "df < length h"
  shows "fst (DensityTransform_init h df idc latc lngc) ! df = h ! df \<and>
         input_df (snd (DensityTransform_init h df idc latc lngc)) \<noteq> df \<and>
         fst (DensityTransform_init h df idc latc lngc) !
           input_df (snd (DensityTransform_init h df idc latc lngc)) = h ! df \<and>
         fst (run_calls lib (DensityTransform_init h df idc latc lngc) calls) ! df = h ! df"
proof -
  have i: "DensityTransform_init h df idc latc lngc =
        (h @ [h ! df],
         \<lparr>input_df = length h, id_col = idc, lat_col = latc, lng_col = lngc,
           polygon_cache = Map.empty, is_fit = False, dt_resolution = None\<rparr>)"
    by (simp add: DensityTransform_init_def df_copy_def alloc_def)
  have d: "df < length (h @ [h ! df])"
    using assms by simp
  have "fst (run_calls lib (DensityTransform_init h df idc latc lngc) calls) ! df =
        (h @ [h ! df]) ! df"
    unfolding i using run_calls_keeps [OF d] by blast
  with assms show ?thesis
    by (simp add: i nth_append)
qed

theorem caller_dataset_unmodified_witness:
  "(0::nat) < length [example_df] \<and>
   fst (DensityTransform_init [example_df] 0 ''id'' ''lat'' ''lng'') ! 0 = example_df \<and>
   fst (run_calls example_lib (DensityTransform_init [example_df] 0 ''id'' ''lat'' ''lng'')
          [Fit 9, Transform None, TransformPlot None, Fit 9]) ! 0 = example_df"
proof -
  have l: "(0::nat) < length [example_df]"
    by simp
  show ?thesis
    using l caller_dataset_unmodified [OF l, of "''id''" "''lat''" "''lng''" example_lib
        "[Fit 9, Transform None, TransformPlot None, Fit 9]"]
    by simp
qed

text \<open>
  C5. After a \<^verbatim>\<open>fit\<close> that returned, the fitted frame has one row for each row
  of the frame it started from, in the same order; the row's geometry is the
  boundary of the cell of the original coordinates, its \<open>lng\<close> is the x and its
  \<open>lat\<close> the y coordinate of the centroid of that boundary, and its identifier
  is unchanged. So two rows whose original coordinates are in the same cell have
  the same \<open>lat\<close> and the same \<open>lng\<close>.
\<close>

theorem fit_replaces_coordinates_by_centroid:
  assumes "fit lib h self res = (h', self', Inr ())"
  shows "length (h' ! input_df self') = length (h ! input_df self) \<and>
         (\<forall>i<length (h ! input_df self).
            \<exists>c. h3_geo_to_h3 lib (lat (h ! input_df self ! i)) (lng (h ! input_df self ! i)) res =
                  Inr c \<and>
                geometry (h' ! input_df self' ! i) = Some (h3_boundary lib c) \<and>
                lng (h' ! input_df self' ! i) = fst (centroid_xy lib (h3_boundary lib c)) \<and>
                lat (h' ! input_df self' ! i) = snd (centroid_xy lib (h3_boundary lib c)) \<and>
                ident (h' ! input_df self' ! i) = ident (h ! input_df self ! i)) \<and>
         (\<forall>i<length (h ! input_df self). \<forall>j<length (h ! input_df self).
            h3_geo_to_h3 lib (lat (h ! input_df self ! i)) (lng (h ! input_df self ! i)) res =
            h3_geo_to_h3 lib (lat (h ! input_df self ! j)) (lng (h ! input_df self ! j)) res \<longrightarrow>
            lat (h' ! input_df self' ! i) = lat (h' ! input_df self' ! j) \<and>
            lng (h' ! input_df self' ! i) = lng (h' ! input_df self' ! j))"
proof -
  define f where "f = h ! input_df self"
  define f' where "f' = h' ! input_df self'"
  from fit_Inr [OF assms] obtain ixs hr where
    g: "geo_to_h3 lib res f = Inr ixs" and
    h': "h' = h @ [map (\<lambda>p. fitted_row lib (fst p) (snd p)) ixs]" and
    s': "self' = self\<lparr>input_df := length h,
                        polygon_cache := build_cache lib (polygon_cache self)
                           (map (\<lambda>p. fitted_row lib (fst p) (snd p)) ixs),
                        is_fit := True, dt_resolution := Some hr\<rparr>"
    unfolding f_def by blast
  have a: "input_df self' = length h"
    by (simp add: s')
  have f'_eq: "f' = map (\<lambda>p. fitted_row lib (fst p) (snd p)) ixs"
    by (simp add: f'_def h' a)
  from geo_to_h3_Inr [OF g] have
    all2: "list_all2 (\<lambda>r p. snd p = r \<and> h3_geo_to_h3 lib (lat r) (lng r) res = Inr (fst p)) f ixs" .
  have len: "length ixs = length f"
    using all2 by (simp add: list_all2_lengthD)
  have nth1: "snd (ixs ! i) = f ! i" if "i < length f" for i
    using list_all2_nthD [OF all2 that] by simp
  have nth2: "h3_geo_to_h3 lib (lat (f ! i)) (lng (f ! i)) res = Inr (fst (ixs ! i))"
    if "i < length f" for i
    using list_all2_nthD [OF all2 that] by simp
  have row: "f' ! i = fitted_row lib (fst (ixs ! i)) (f ! i)" if "i < length f" for i
    using that len nth1 [OF that] by (simp add: f'_eq)
  have zero: "length f' = length f"
    by (simp add: f'_eq len)
  have one: "\<forall>i<length f.
            \<exists>c. h3_geo_to_h3 lib (lat (f ! i)) (lng (f ! i)) res = Inr c \<and>
                geometry (f' ! i) = Some (h3_boundary lib c) \<and>
                lng (f' ! i) = fst (centroid_xy lib (h3_boundary lib c)) \<and>
                lat (f' ! i) = snd (centroid_xy lib (h3_boundary lib c)) \<and>
                ident (f' ! i) = ident (f ! i)"
  proof (intro allI impI)
    fix i
    assume i: "i < length f"
    show "\<exists>c. h3_geo_to_h3 lib (lat (f ! i)) (lng (f ! i)) res = Inr c \<and>
                geometry (f' ! i) = Some (h3_boundary lib c) \<and>
                lng (f' ! i) = fst (centroid_xy lib (h3_boundary lib c)) \<and>
                lat (f' ! i) = snd (centroid_xy lib (h3_boundary lib c)) \<and>
                ident (f' ! i) = ident (f ! i)"
      by (rule exI [of _ "fst (ixs ! i)"]) (simp add: nth2 [OF i] row [OF i] fitted_row_def)
  qed
  have two: "\<forall>i<length f. \<forall>j<length f.
            h3_geo_to_h3 lib (lat (f ! i)) (lng (f ! i)) res =
            h3_geo_to_h3 lib (lat (f ! j)) (lng (f ! j)) res \<longrightarrow>
            lat (f' ! i) = lat (f' ! j) \<and> lng (f' ! i) = lng (f' ! j)"
  proof (intro allI impI)
    fix i j
    assume i: "i < length f" and j: "j < length f"
      and e: "h3_geo_to_h3 lib (lat (f ! i)) (lng (f ! i)) res =
              h3_geo_to_h3 lib (lat (f ! j)) (lng (f ! j)) res"
    from e have "fst (ixs ! i) = fst (ixs ! j)"
      unfolding nth2 [OF i] nth2 [OF j] by (rule Inr_inject)
    then show "lat (f' ! i) = lat (f' ! j) \<and> lng (f' ! i) = lng (f' ! j)"
      by (simp add: row [OF i] row [OF j] fitted_row_def)
  qed
  from zero one two show ?thesis
    unfolding f_def f'_def by (intro conjI)
qed

theorem fit_replaces_coordinates_by_centroid_witness:
  "fit example_lib (fst example_new) (snd example_new) 9 =
     (fst example_fit, fst (snd example_fit), Inr ()) \<and>
   map (\<lambda>r. (lat r, lng r)) (fst example_fit ! input_df (fst (snd example_fit))) =
     [(3, 1), (3, 1), (3, 1)] \<and>
   length (fst example_fit ! input_df (fst (snd example_fit))) =
     length (fst example_new ! input_df (snd example_new))"
proof -
  note r = example_fit_run
  have m: "map (\<lambda>r. (lat r, lng r)) (fst example_fit ! input_df (fst (snd example_fit))) =
     [(3, 1), (3, 1), (3, 1)]"
    using example_fit_eq by simp
  from r m fit_replaces_coordinates_by_centroid [OF r] show ?thesis
    by blast
qed

subsection \<open>Aggregation\<close>

lemma set_groupby_keys: "set (groupby_keys f) = row_key ` set f"
  by (simp add: groupby_keys_def row_key_def image_def)

lemma distinct_groupby_keys: "distinct (groupby_keys f)"
  by (simp add: groupby_keys_def)

lemma nunique_card: "nunique vs = card {i. Some i \<in> set vs}"
proof -
  have "nunique vs = card (set (filter (\<lambda>v. v \<noteq> None) vs))"
    by (simp add: nunique_def length_remdups_card_conv)
  also have "set (filter (\<lambda>v. v \<noteq> None) vs) = Some ` {i. Some i \<in> set vs}"
    by (auto simp add: image_def)
  also have "card (Some ` {i. Some i \<in> set vs}) = card {i. Some i \<in> set vs}"
    by (rule card_image) simp
  finally show ?thesis .
qed

lemma transform_agg_keys:
  "map agg_key (transform_agg lib h self b) = groupby_keys (h ! input_df self)"
  by (simp add: transform_agg_def agg_key_def Let_def comp_def case_prod_beta)

lemma transform_agg_count:
  assumes "row \<in> set (transform_agg lib h self b)"
  shows "agg_count row =
         card {i. \<exists>r\<in>set (h ! input_df self). row_key r = agg_key row \<and> ident r = Some i}"
proof -
  have "agg_count row =
        nunique (map ident (filter (\<lambda>r. row_key r = agg_key row) (h ! input_df self)))"
    using assms
    by (auto simp add: transform_agg_def agg_key_def row_key_def Let_def split: if_splits)
  also have "\<dots> = card {i. \<exists>r\<in>set (h ! input_df self). row_key r = agg_key row \<and> ident r = Some i}"
    unfolding nunique_card by (rule arg_cong [where f = card]) (auto simp add: image_def)
  finally show ?thesis .
qed

text \<open>
  C1. On a fitted instance, \<^verbatim>\<open>transform\<close> called without a mode or with the
  mode \<^verbatim>\<open>agg\<close> (the string the code has for the aggregate mode) returns a frame with exactly one row for each distinct
  \<open>(lat, lng)\<close> pair of the fitted frame, and the count of a row is the number
  of distinct identifiers among the records with that pair (a record whose
  identifier is missing has none to count). The witness is the scenario of the
  claim: three records with the identifiers A, A, B in one cell give one row
  with count 2.
\<close>

theorem transform_counts_distinct_ids:
  assumes "is_fit self" and "kwargs = None \<or> kwargs = Some (PyStr AGG)"
  shows "\<exists>rows. transform lib h self kwargs = Inr (Some rows) \<and>
           distinct (map agg_key rows) \<and>
           set (map agg_key rows) = row_key ` set (h ! input_df self) \<and>
           (\<forall>row\<in>set rows.
              agg_count row =
              card {i. \<exists>r\<in>set (h ! input_df self). row_key r = agg_key row \<and> ident r = Some i})"
proof -
  have t: "transform lib h self kwargs = Inr (Some (transform_agg lib h self False))"
    using assms
    by (auto simp add: transform_def needs_fit_def truthy_def in_modes_def MODES_def AGG_def)
  have d: "distinct (map agg_key (transform_agg lib h self False))"
    by (simp only: transform_agg_keys distinct_groupby_keys)
  have s: "set (map agg_key (transform_agg lib h self False)) = row_key ` set (h ! input_df self)"
    by (simp only: transform_agg_keys set_groupby_keys)
  have c: "\<forall>row\<in>set (transform_agg lib h self False).
              agg_count row =
              card {i. \<exists>r\<in>set (h ! input_df self). row_key r = agg_key row \<and> ident r = Some i}"
    using transform_agg_count by blast
  from t d s c show ?thesis
    by blast
qed

theorem transform_counts_distinct_ids_witness:
  "is_fit (fst (snd example_fit)) \<and>
   transform example_lib (fst example_fit) (fst (snd example_fit)) None =
     Inr (Some [\<lparr>agg_lat = 3, agg_lng = 1, agg_count = 2, agg_geo = None\<rparr>]) \<and>
   (\<exists>rows. transform example_lib (fst example_fit) (fst (snd example_fit)) None =
            Inr (Some rows) \<and>
          distinct (map agg_key rows) \<and>
          set (map agg_key rows) =
            row_key ` set (fst example_fit ! input_df (fst (snd example_fit))))"
proof -
  have f: "is_fit (fst (snd example_fit))"
    using example_fit_eq by simp
  have v: "transform example_lib (fst example_fit) (fst (snd example_fit)) None =
     Inr (Some [\<lparr>agg_lat = 3, agg_lng = 1, agg_count = 2, agg_geo = None\<rparr>])"
    using example_fit_eq
    by (simp add: transform_def needs_fit_def truthy_def transform_agg_def groupby_keys_def
        nunique_def Let_def)
  from f v transform_counts_distinct_ids [OF f, of None example_lib "fst example_fit"]
  show ?thesis
    by blast
qed

text \<open>The scenario for any three records: identifiers \<open>a\<close>, \<open>a\<close>, \<open>b\<close> with
  \<open>a \<noteq> b\<close> at one pair of coordinates give one row, with count 2.\<close>

lemma three_records_one_cell:
  assumes "is_fit self" and "h ! input_df self = [r1, r2, r3]"
    and "ident r1 = Some a" and "ident r2 = Some a" and "ident r3 = Some b" and "a \<noteq> b"
    and "row_key r1 = k" and "row_key r2 = k" and "row_key r3 = k"
  shows "transform lib h self None =
           Inr (Some [\<lparr>agg_lat = fst k, agg_lng = snd k, agg_count = 2, agg_geo = None\<rparr>])"
  using assms
  by (auto simp add: transform_def needs_fit_def truthy_def transform_agg_def groupby_keys_def
      nunique_def row_key_def Let_def)

subsection \<open>The polygon cache\<close>

lemma build_cache_other:
  "k \<notin> (\<lambda>r. poly_cache_key lib (lat r) (lng r)) ` set f \<Longrightarrow> build_cache lib cache f k = cache k"
  by (induction f arbitrary: cache) auto

lemma dom_build_cache:
  "dom (build_cache lib cache f) = dom cache \<union> (\<lambda>r. poly_cache_key lib (lat r) (lng r)) ` set f"
  by (induction f arbitrary: cache) auto

lemma build_cache_hit:
  "k \<in> (\<lambda>r. poly_cache_key lib (lat r) (lng r)) ` set f \<Longrightarrow>
   \<exists>r\<in>set f. poly_cache_key lib (lat r) (lng r) = k \<and> build_cache lib cache f k = Some (geometry r)"
proof (induction f arbitrary: cache)
  case Nil
  then show ?case by simp
next
  case (Cons r rs)
  show ?case
  proof (cases "k \<in> (\<lambda>r. poly_cache_key lib (lat r) (lng r)) ` set rs")
    case True
    from Cons.IH [OF True] show ?thesis
      by auto
  next
    case False
    with Cons.prems have "poly_cache_key lib (lat r) (lng r) = k"
      by auto
    with build_cache_other [OF False] show ?thesis
      by auto
  qed
qed

text \<open>The cache of an instance that was built by the constructor and then used
  through its three methods is empty when a \<^verbatim>\<open>fit\<close> of it returns: an earlier
  \<^verbatim>\<open>fit\<close> that stored a row left a frame with geometries, on which no later
  \<^verbatim>\<open>fit\<close> returns.\<close>

lemma fit_keeps_cache_inv:
  assumes "cache_inv h self" and "fit lib h self res = (h', self', r)"
  shows "cache_inv h' self'"
proof (cases "geo_to_h3 lib res (h ! input_df self)")
  case (Inl e)
  with assms show ?thesis
    by (simp add: fit_def)
next
  case (Inr ixs)
  from geo_to_h3_plain [OF Inr] assms(1) have c: "polygon_cache self = Map.empty"
    by (auto simp add: cache_inv_def list_ex_iff)
  show ?thesis
  proof (cases ixs)
    case Nil
    from assms(2) show ?thesis
      unfolding fit_after_geo_to_h3 [OF Inr]
      by (auto simp add: Nil c cache_inv_def Let_def split: sum.splits)
  next
    case (Cons p ps)
    from assms(2) show ?thesis
      unfolding fit_after_geo_to_h3 [OF Inr]
      by (auto simp add: Cons cache_inv_def fitted_row_def Let_def split: sum.splits)
  qed
qed

lemma run_calls_keeps_cache_inv:
  "cache_inv h self \<Longrightarrow> run_calls lib (h, self) cs = (h', self') \<Longrightarrow> cache_inv h' self'"
proof (induction cs arbitrary: h self)
  case Nil
  then show ?case by simp
next
  case (Cons c cs)
  show ?case
  proof (cases c)
    case (Fit res)
    obtain h1 self1 r where f: "fit lib h self res = (h1, self1, r)"
      by (cases "fit lib h self res") auto
    from fit_keeps_cache_inv [OF Cons.prems(1) f] Cons.IH [of h1 self1] Cons.prems(2)
    show ?thesis
      by (simp add: Fit f)
  next
    case (Transform kw)
    with Cons show ?thesis by simp
  next
    case (TransformPlot kw)
    with Cons show ?thesis by simp
  qed
qed

lemma fit_starts_with_empty_cache:
  assumes "run_calls lib (DensityTransform_init h0 df idc latc lngc) cs = (h, self)"
    and "fit lib h self res = (h', self', Inr ())"
  shows "polygon_cache self = Map.empty"
proof -
  have "cache_inv (fst (DensityTransform_init h0 df idc latc lngc))
          (snd (DensityTransform_init h0 df idc latc lngc))"
    by (simp add: cache_inv_def DensityTransform_init_def df_copy_def alloc_def)
  from run_calls_keeps_cache_inv [OF this, of lib cs h self] assms(1)
  have i: "cache_inv h self"
    by simp
  from fit_Inr [OF assms(2)] obtain ixs where "geo_to_h3 lib res (h ! input_df self) = Inr ixs"
    by blast
  from geo_to_h3_plain [OF this] i show ?thesis
    by (auto simp add: cache_inv_def list_ex_iff)
qed

text \<open>A second \<^verbatim>\<open>fit\<close> of an instance whose fitted frame has rows raises, and leaves
  the store and the instance as they were.\<close>

lemma fit_again_raises:
  assumes "fit lib h self res = (h', self', Inr ())" and "h ! input_df self \<noteq> []"
  shows "fit lib h' self' res' = (h', self', Inl NotAPoint)"
proof -
  from fit_Inr [OF assms(1)] obtain ixs hr where
    g: "geo_to_h3 lib res (h ! input_df self) = Inr ixs" and
    h': "h' = h @ [map (\<lambda>p. fitted_row lib (fst p) (snd p)) ixs]" and
    s': "self' = self\<lparr>input_df := length h,
                        polygon_cache := build_cache lib (polygon_cache self)
                           (map (\<lambda>p. fitted_row lib (fst p) (snd p)) ixs),
                        is_fit := True, dt_resolution := Some hr\<rparr>"
    by blast
  from geo_to_h3_Inr [OF g] assms(2) have "ixs \<noteq> []"
    by auto
  then obtain p ps where "ixs = p # ps"
    by (cases ixs) auto
  then have "geo_to_h3 lib res' (h' ! input_df self') = Inl NotAPoint"
    by (simp add: h' s' geo_to_h3_def fitted_row_def)
  then show ?thesis
    by (simp add: fit_def)
qed

text \<open>Two keys are the same string only if the coordinates are written the same,
  provided neither \<open>lat\<close> is written as the other followed by a dash and more.\<close>

lemma poly_cache_key_inj:
  assumes "poly_cache_key lib a b = poly_cache_key lib a' b'"
    and "\<not> prefix (format_coord lib a @ ''-'') (format_coord lib a')"
    and "\<not> prefix (format_coord lib a' @ ''-'') (format_coord lib a)"
  shows "format_coord lib a = format_coord lib a' \<and> format_coord lib b = format_coord lib b'"
proof -
  define A B A' B' where "A = format_coord lib a" and "B = format_coord lib b"
    and "A' = format_coord lib a'" and "B' = format_coord lib b'"
  from assms(1) have "A @ CHR ''-'' # B = A' @ CHR ''-'' # B'"
    by (simp add: poly_cache_key_def A_def B_def A'_def B'_def)
  then obtain us where
    "A = A' @ us \<and> us @ CHR ''-'' # B = CHR ''-'' # B' \<or>
     A @ us = A' \<and> CHR ''-'' # B = us @ CHR ''-'' # B'"
    by (auto simp add: append_eq_append_conv2)
  then have "A = A' \<and> B = B'"
  proof
    assume c: "A = A' @ us \<and> us @ CHR ''-'' # B = CHR ''-'' # B'"
    show ?thesis
    proof (cases us)
      case Nil
      with c show ?thesis by simp
    next
      case (Cons u us')
      with c have "prefix (A' @ ''-'') A"
        by (simp add: prefix_def)
      with assms(3) show ?thesis
        by (simp add: A_def A'_def)
    qed
  next
    assume c: "A @ us = A' \<and> CHR ''-'' # B = us @ CHR ''-'' # B'"
    show ?thesis
    proof (cases us)
      case Nil
      with c show ?thesis by simp
    next
      case (Cons u us')
      with c have "prefix (A @ ''-'') A'"
        by (auto simp add: prefix_def)
      with assms(2) show ?thesis
        by (simp add: A_def A'_def)
    qed
  qed
  then show ?thesis
    by (simp add: A_def B_def A'_def B'_def)
qed

text \<open>
  C6. After a \<^verbatim>\<open>fit\<close> that returned, on an instance whose cache was empty before
  (as it is on every instance a caller can have, by the lemma above):

  \<^item> the keys of the polygon cache are exactly the strings \<^verbatim>\<open>"{lat}-{lng}"\<close> of the
    rows of the fitted frame;
  \<^item> the aggregation that \<^verbatim>\<open>transform_plot\<close> builds has a row for every pair of the
    fitted frame and for nothing else, and each of its rows gets from the cache a
    geometry that is not null, that of a fitted row with the same key;
  \<^item> \<^verbatim>\<open>transform_plot\<close> without a mode passes the guard and hands this aggregation
    to the calls that draw the map;
  \<^item> where the text written for a coordinate tells the coordinates of the frame
    apart, and no \<open>lat\<close> is written as another \<open>lat\<close> followed by a dash and more
    (both hold of the text Python writes for floating point numbers, where a dash
    is the sign or follows the \<open>e\<close> of the exponent), the key is a one-to-one map
    from the distinct pairs of the frame onto the keys of the cache, so the cache
    has exactly one entry for each distinct pair, and the geometry of a row of
    the aggregation is that of a fitted row with the same pair.

  The witness is a frame with records in three cells.
\<close>

theorem polygon_cache_covers_fitted_pairs:
  assumes "fit lib h self res = (h', self', Inr ())" and "polygon_cache self = Map.empty"
  shows "dom (polygon_cache self') =
           (\<lambda>r. poly_cache_key lib (lat r) (lng r)) ` set (h' ! input_df self') \<and>
         set (map agg_key (transform_agg lib h' self' True)) =
           row_key ` set (h' ! input_df self') \<and>
         (\<forall>row\<in>set (transform_agg lib h' self' True).
            \<exists>g. agg_geo row = Some (Some g) \<and>
                (\<exists>r\<in>set (h' ! input_df self').
                   poly_cache_key lib (lat r) (lng r) =
                     poly_cache_key lib (agg_lat row) (agg_lng row) \<and>
                   geometry r = Some g)) \<and>
         transform_plot lib h' self' None =
           (if transform_agg lib h' self' True = [] then Inl MapError
            else case render_map lib (transform_agg lib h' self' True) of
                   None \<Rightarrow> Inl MapError
                 | Some m \<Rightarrow> Inr (Some m)) \<and>
         (inj_on (format_coord lib)
            (lat ` set (h' ! input_df self') \<union> lng ` set (h' ! input_df self')) \<and>
          (\<forall>r\<in>set (h' ! input_df self'). \<forall>r'\<in>set (h' ! input_df self').
             \<not> prefix (format_coord lib (lat r) @ ''-'') (format_coord lib (lat r'))) \<longrightarrow>
            bij_betw (\<lambda>k. poly_cache_key lib (fst k) (snd k))
              (row_key ` set (h' ! input_df self')) (dom (polygon_cache self')) \<and>
            card (dom (polygon_cache self')) = card (row_key ` set (h' ! input_df self')) \<and>
            (\<forall>row\<in>set (transform_agg lib h' self' True).
               \<exists>g. agg_geo row = Some (Some g) \<and>
                   (\<exists>r\<in>set (h' ! input_df self').
                      row_key r = agg_key row \<and> geometry r = Some g)))"
proof -
  define f' where "f' = h' ! input_df self'"
  define key where "key = (\<lambda>r::('a, 'b, 'c) row. poly_cache_key lib (lat r) (lng r))"
  define pkey where "pkey = (\<lambda>k::'b \<times> 'b. poly_cache_key lib (fst k) (snd k))"
  from fit_Inr [OF assms(1)] obtain ixs hr where
    h': "h' = h @ [map (\<lambda>p. fitted_row lib (fst p) (snd p)) ixs]" and
    s': "self' = self\<lparr>input_df := length h,
                        polygon_cache := build_cache lib (polygon_cache self)
                           (map (\<lambda>p. fitted_row lib (fst p) (snd p)) ixs),
                        is_fit := True, dt_resolution := Some hr\<rparr>"
    by blast
  have a: "input_df self' = length h" and fit': "is_fit self'"
    by (simp_all add: s')
  have f'_eq: "f' = map (\<lambda>p. fitted_row lib (fst p) (snd p)) ixs"
    by (simp add: f'_def h' a)
  have cache: "polygon_cache self' = build_cache lib Map.empty f'"
    by (simp add: s' f'_eq assms(2))
  have geo: "\<exists>g. geometry r = Some g" if "r \<in> set f'" for r
    using that by (auto simp add: f'_eq fitted_row_def)
  have dom: "dom (polygon_cache self') = key ` set f'"
    by (simp add: cache dom_build_cache key_def)
  have keys: "set (map agg_key (transform_agg lib h' self' True)) = row_key ` set f'"
    by (simp only: transform_agg_keys set_groupby_keys f'_def)
  have rows: "\<exists>g. agg_geo row = Some (Some g) \<and>
                (\<exists>r\<in>set f'. key r = poly_cache_key lib (agg_lat row) (agg_lng row) \<and>
                   geometry r = Some g)"
    if "row \<in> set (transform_agg lib h' self' True)" for row
  proof -
    from that have "agg_key row \<in> set (map agg_key (transform_agg lib h' self' True))"
      by simp
    then have "agg_key row \<in> row_key ` set f'"
      by (simp only: keys)
    then have "poly_cache_key lib (agg_lat row) (agg_lng row) \<in> key ` set f'"
      by (auto simp add: key_def row_key_def agg_key_def)
    from build_cache_hit [OF this [unfolded key_def], of Map.empty] obtain r where
      r: "r \<in> set f'" and
      e: "key r = poly_cache_key lib (agg_lat row) (agg_lng row)" and
      c: "polygon_cache self' (poly_cache_key lib (agg_lat row) (agg_lng row)) = Some (geometry r)"
      by (auto simp add: cache key_def)
    from that have "agg_geo row =
        Some (cache_get (polygon_cache self') (poly_cache_key lib (agg_lat row) (agg_lng row)))"
      by (auto simp add: transform_agg_def Let_def)
    with c geo [OF r] r e show ?thesis
      by (auto simp add: cache_get_def)
  qed
  have plot: "transform_plot lib h' self' None =
           (if transform_agg lib h' self' True = [] then Inl MapError
            else case render_map lib (transform_agg lib h' self' True) of
                   None \<Rightarrow> Inl MapError
                 | Some m \<Rightarrow> Inr (Some m))"
    using fit' by (simp add: transform_plot_def needs_fit_def truthy_def Let_def)
  have apart: "bij_betw pkey (row_key ` set f') (dom (polygon_cache self')) \<and>
            card (dom (polygon_cache self')) = card (row_key ` set f') \<and>
            (\<forall>row\<in>set (transform_agg lib h' self' True).
               \<exists>g. agg_geo row = Some (Some g) \<and>
                   (\<exists>r\<in>set f'. row_key r = agg_key row \<and> geometry r = Some g))"
    if i: "inj_on (format_coord lib) (lat ` set f' \<union> lng ` set f')"
      and p: "\<forall>r\<in>set f'. \<forall>r'\<in>set f'.
             \<not> prefix (format_coord lib (lat r) @ ''-'') (format_coord lib (lat r'))"
  proof -
    have same: "la = la' \<and> lo = lo'"
      if e: "poly_cache_key lib la lo = poly_cache_key lib la' lo'"
        and m: "(la, lo) \<in> row_key ` set f'" "(la', lo') \<in> row_key ` set f'"
      for la lo la' lo'
    proof -
      from m obtain r r' where rm: "r \<in> set f'" "r' \<in> set f'" and
        eq: "la = lat r" "lo = lng r" "la' = lat r'" "lo' = lng r'"
        by (auto simp add: row_key_def)
      from p rm have np:
        "\<not> prefix (format_coord lib (lat r) @ ''-'') (format_coord lib (lat r'))"
        "\<not> prefix (format_coord lib (lat r') @ ''-'') (format_coord lib (lat r))"
        by simp_all
      from poly_cache_key_inj [OF e [unfolded eq] np] have
        fa: "format_coord lib (lat r) = format_coord lib (lat r')" and
        fo: "format_coord lib (lng r) = format_coord lib (lng r')"
        by simp_all
      have mem: "lat r \<in> lat ` set f' \<union> lng ` set f'" "lat r' \<in> lat ` set f' \<union> lng ` set f'"
        "lng r \<in> lat ` set f' \<union> lng ` set f'" "lng r' \<in> lat ` set f' \<union> lng ` set f'"
        using rm by simp_all
      from inj_onD [OF i fa mem(1, 2)] inj_onD [OF i fo mem(3, 4)] show ?thesis
        by (simp add: eq)
    qed
    have inj: "inj_on pkey (row_key ` set f')"
    proof (rule inj_onI)
      fix k k'
      assume k: "k \<in> row_key ` set f'" and k': "k' \<in> row_key ` set f'"
        and e: "pkey k = pkey k'"
      from same [of "fst k" "snd k" "fst k'" "snd k'"] k k' e show "k = k'"
        by (simp add: pkey_def prod_eq_iff)
    qed
    have img: "pkey ` row_key ` set f' = dom (polygon_cache self')"
      by (simp add: dom key_def pkey_def row_key_def image_image)
    have b: "bij_betw pkey (row_key ` set f') (dom (polygon_cache self'))"
      unfolding bij_betw_def using inj img by simp
    have c: "card (dom (polygon_cache self')) = card (row_key ` set f')"
      unfolding img [symmetric] by (rule card_image [OF inj])
    have g: "\<exists>g. agg_geo row = Some (Some g) \<and>
                 (\<exists>r\<in>set f'. row_key r = agg_key row \<and> geometry r = Some g)"
      if w: "row \<in> set (transform_agg lib h' self' True)" for row
    proof -
      from rows [OF w] obtain g r where
        g: "agg_geo row = Some (Some g)" and r: "r \<in> set f'" and
        e: "key r = poly_cache_key lib (agg_lat row) (agg_lng row)" and gr: "geometry r = Some g"
        by blast
      from w have "agg_key row \<in> set (map agg_key (transform_agg lib h' self' True))"
        by simp
      then have m: "(agg_lat row, agg_lng row) \<in> row_key ` set f'"
        by (simp only: keys agg_key_def)
      from r have "(lat r, lng r) \<in> row_key ` set f'"
        by (auto simp add: row_key_def)
      from same [OF e [unfolded key_def] this m] have "row_key r = agg_key row"
        by (simp add: row_key_def agg_key_def)
      with g r gr show ?thesis
        by blast
    qed
    from g have "\<forall>row\<in>set (transform_agg lib h' self' True).
               \<exists>g. agg_geo row = Some (Some g) \<and>
                   (\<exists>r\<in>set f'. row_key r = agg_key row \<and> geometry r = Some g)"
      by (rule ballI)
    with b c show ?thesis
      by (intro conjI)
  qed
  have all_rows: "\<forall>row\<in>set (transform_agg lib h' self' True).
            \<exists>g. agg_geo row = Some (Some g) \<and>
                (\<exists>r\<in>set f'. key r = poly_cache_key lib (agg_lat row) (agg_lng row) \<and>
                   geometry r = Some g)"
    using rows by (rule ballI)
  have last: "inj_on (format_coord lib) (lat ` set f' \<union> lng ` set f') \<and>
          (\<forall>r\<in>set f'. \<forall>r'\<in>set f'.
             \<not> prefix (format_coord lib (lat r) @ ''-'') (format_coord lib (lat r'))) \<longrightarrow>
            bij_betw pkey (row_key ` set f') (dom (polygon_cache self')) \<and>
            card (dom (polygon_cache self')) = card (row_key ` set f') \<and>
            (\<forall>row\<in>set (transform_agg lib h' self' True).
               \<exists>g. agg_geo row = Some (Some g) \<and>
                   (\<exists>r\<in>set f'. row_key r = agg_key row \<and> geometry r = Some g))"
  proof (intro impI, elim conjE)
    assume "inj_on (format_coord lib) (lat ` set f' \<union> lng ` set f')"
      and "\<forall>r\<in>set f'. \<forall>r'\<in>set f'.
             \<not> prefix (format_coord lib (lat r) @ ''-'') (format_coord lib (lat r'))"
    then show "bij_betw pkey (row_key ` set f') (dom (polygon_cache self')) \<and>
            card (dom (polygon_cache self')) = card (row_key ` set f') \<and>
            (\<forall>row\<in>set (transform_agg lib h' self' True).
               \<exists>g. agg_geo row = Some (Some g) \<and>
                   (\<exists>r\<in>set f'. row_key r = agg_key row \<and> geometry r = Some g))"
      by (rule apart)
  qed
  from dom keys all_rows plot last show ?thesis
    unfolding f'_def key_def pkey_def by (intro conjI)
qed

theorem polygon_cache_covers_fitted_pairs_witness:
  "fit example_lib (fst example_new2) (snd example_new2) 9 =
     (fst example_fit2, fst (snd example_fit2), Inr ()) \<and>
   polygon_cache (snd example_new2) = Map.empty \<and>
   inj_on (format_coord example_lib)
     (lat ` set (fst example_fit2 ! input_df (fst (snd example_fit2))) \<union>
      lng ` set (fst example_fit2 ! input_df (fst (snd example_fit2)))) \<and>
   row_key ` set (fst example_fit2 ! input_df (fst (snd example_fit2))) =
     {(3, 1), (5, 1), (3, 3)} \<and>
   card (dom (polygon_cache (fst (snd example_fit2)))) = 3 \<and>
   dom (polygon_cache (fst (snd example_fit2))) = {''III-I'', ''IIIII-I'', ''III-III''} \<and>
   transform_agg example_lib (fst example_fit2) (fst (snd example_fit2)) True =
     [\<lparr>agg_lat = 3, agg_lng = 1, agg_count = 2, agg_geo = Some (Some (1, 0))\<rparr>,
      \<lparr>agg_lat = 3, agg_lng = 3, agg_count = 1, agg_geo = Some (Some (1, 1))\<rparr>,
      \<lparr>agg_lat = 5, agg_lng = 1, agg_count = 1, agg_geo = Some (Some (2, 0))\<rparr>] \<and>
   transform_plot example_lib (fst example_fit2) (fst (snd example_fit2)) None = Inr (Some 3)"
proof -
  note r = example_fit2_run
  have e: "polygon_cache (snd example_new2) = Map.empty"
    by (simp add: example_new2_def DensityTransform_init_def df_copy_def alloc_def)
  have i: "inj_on (format_coord example_lib)
     (lat ` set (fst example_fit2 ! input_df (fst (snd example_fit2))) \<union>
      lng ` set (fst example_fit2 ! input_df (fst (snd example_fit2))))"
  proof -
    have "lat ` set (fst example_fit2 ! input_df (fst (snd example_fit2))) \<union>
          lng ` set (fst example_fit2 ! input_df (fst (snd example_fit2))) = {3, 5, 1}"
      using example_fit2_eq by auto
    then show ?thesis
      by (simp add: example_lib_def eval_nat_numeral)
  qed
  have p: "\<forall>r\<in>set (fst example_fit2 ! input_df (fst (snd example_fit2))).
           \<forall>r'\<in>set (fst example_fit2 ! input_df (fst (snd example_fit2))).
             \<not> prefix (format_coord example_lib (lat r) @ ''-'')
                 (format_coord example_lib (lat r'))"
    using example_fit2_eq by (simp add: example_lib_def eval_nat_numeral)
  have k: "row_key ` set (fst example_fit2 ! input_df (fst (snd example_fit2))) =
     {(3, 1), (5, 1), (3, 3)}"
    using example_fit2_eq by (auto simp add: row_key_def)
  have d: "dom (polygon_cache (fst (snd example_fit2))) = {''III-I'', ''IIIII-I'', ''III-III''}"
    by (auto simp add: example_fit2_cache)
  have n: "transform_agg example_lib (fst example_fit2) (fst (snd example_fit2)) True =
     [\<lparr>agg_lat = 3, agg_lng = 1, agg_count = 2, agg_geo = Some (Some (1, 0))\<rparr>,
      \<lparr>agg_lat = 3, agg_lng = 3, agg_count = 1, agg_geo = Some (Some (1, 1))\<rparr>,
      \<lparr>agg_lat = 5, agg_lng = 1, agg_count = 1, agg_geo = Some (Some (2, 0))\<rparr>]"
    using example_fit2_eq
    by (simp add: example_fit2_cache transform_agg_def groupby_keys_def nunique_def cache_get_def
        Let_def poly_cache_key_def example_lib_def eval_nat_numeral)
  have f: "is_fit (fst (snd example_fit2))"
    using example_fit2_eq by simp
  have t: "transform_plot example_lib (fst example_fit2) (fst (snd example_fit2)) None =
     Inr (Some 3)"
    by (simp add: transform_plot_def needs_fit_def truthy_def f n Let_def)
      (simp add: example_lib_def)
  from polygon_cache_covers_fitted_pairs [OF r e] i p
  have "card (dom (polygon_cache (fst (snd example_fit2)))) =
        card (row_key ` set (fst example_fit2 ! input_df (fst (snd example_fit2))))"
    by blast
  then have c: "card (dom (polygon_cache (fst (snd example_fit2)))) = 3"
    by (simp add: k)
  from r e i k c d n t show ?thesis
    by (intro conjI)
qed

subsection \<open>The feed utility\<close>

text \<open>
  C8. The claim is that no failure of a feed reaches the caller. The code does
  otherwise when the first feed cannot be connected to: the \<^verbatim>\<open>except\<close> branch
  prints and falls through to \<^verbatim>\<open>resp.status_code\<close> with \<^verbatim>\<open>resp\<close> unbound, which
  raises. This holds for a list of feeds given by the caller and for the default
  list.
\<close>

theorem connect_error_on_first_feed_raises:
  "free_bike_status_to_df (\<lambda>url. Inl err) (Some (feed # feeds)) = Inl UnboundLocalError \<and>
   free_bike_status_to_df (\<lambda>url. Inl err) None = Inl UnboundLocalError"
  by (simp add: free_bike_status_to_df_def GBFS_FEEDS_def)

text \<open>The scenario of the specification (one feed answers 500, the other has
  three bikes) gives three rows; a feed that cannot be connected to after a good
  one adds the good one's bikes a second time; and a body that is not JSON
  raises.\<close>

lemma feed_scenario_500_and_three_bikes:
  "free_bike_status_to_df
     (\<lambda>url. if url = ''a'' then Inr \<lparr>status_code = 500, bikes = Inl JSONDecodeError\<rparr>
            else Inr \<lparr>status_code = 200, bikes = Inr (Some [b1, b2, b3])\<rparr>)
     (Some [''a'', ''b'']) = Inr [b1, b2, b3]"
  by (simp add: free_bike_status_to_df_def)

lemma connect_error_repeats_previous_feed:
  "free_bike_status_to_df
     (\<lambda>url. if url = ''a'' then Inr \<lparr>status_code = 200, bikes = Inr (Some [b1, b2, b3])\<rparr>
            else Inl err)
     (Some [''a'', ''b'']) = Inr [b1, b2, b3, b1, b2, b3]"
  by (simp add: free_bike_status_to_df_def)

lemma invalid_json_raises:
  "free_bike_status_to_df
     (\<lambda>url. Inr \<lparr>status_code = 200, bikes = Inl JSONDecodeError\<rparr>) (Some [''a'']) =
     Inl JSONDecodeError"
  by (simp add: free_bike_status_to_df_def)

end
